theory Spec2Isabelle
  imports Complex_Main
begin

section \<open>A shallow embedding of \<open>phylogenetics/project.py\<close>\<close>

text \<open>
  The module defines one class, \<open>PhylogeneticsProject\<close>: a directory path and a pandas
  DataFrame, with methods that hand the frame to third-party code (phylopandas, Biopython's
  PhyML command-line wrapper, the PhyML executable, pyasr, pickle) and store what comes back.

  The embedding keeps the class's own control flow and writes everything else as a parameter:
  \<^item> Python values are a datatype \<open>pyval\<close>; a DataFrame is a \<open>table\<close>, a list of column
    names and a list of rows, a row being an association list from column names to values.
    Rows are taken by position, that is, the frame's index labels are taken to be distinct.
  \<^item> The file system is a tree without symbolic links: a map from locations (the names
    leading from the root or from the working directory) to regular files and directories,
    and the locations the operating system refuses to write to. Paths are resolved against
    it name by name, as POSIX does.
  \<^item> The third-party routines are the fields of a record \<open>env\<close>. They are functions on
    values: a routine that is handed the frame returns a frame and does not change the one
    it was given. A routine that writes returns the file system it leaves, also when it
    raises.
  \<^item> An exception is a value of \<open>error\<close>. A method is a function from the object and the
    world to the exception raised (if any), the object afterwards and the world afterwards.
  \<^item> The world carries, next to the file system, the list of calls made to the third-party
    routines, in order. It is bookkeeping of the model: nothing reads it.
\<close>

subsection \<open>Values, tables, errors\<close>

type_synonym path = string

datatype pyval = PyNone | PyBool bool | PyInt int | PyFloat real | PyStr string | NaN

type_synonym row = "(string \<times> pyval) list"

record table =
  columns :: "string list"
  rows :: "row list"

text \<open>Reading and writing one cell of a row; a cell that was never written reads \<open>NaN\<close>.\<close>

definition cell :: "row \<Rightarrow> string \<Rightarrow> pyval" where
  "cell r c = (case map_of r c of Some v \<Rightarrow> v | None \<Rightarrow> NaN)"

fun set_cell :: "string \<Rightarrow> pyval \<Rightarrow> row \<Rightarrow> row" where
  "set_cell c v [] = [(c, v)]"
| "set_cell c v ((k, x) # r) = (if k = c then (c, v) # r else (k, x) # set_cell c v r)"

record project =
  project_dir :: path
  data :: table

datatype py_obj = Project project | Value pyval

datatype error =
    Exception string
  | AttributeError string
  | TypeError string
  | ValueError string
  | FileNotFoundError path
  | FileExistsError path
  | IsADirectoryError path
  | NotADirectoryError path
  | PermissionError path
  | External string

subsection \<open>The file system and the world\<close>

text \<open>
  A location is the list of names that leads to it: from the working directory, or, after
  the first element \<open>/\<close>, from the root. The working directory, its ancestors (lists of
  \<open>..\<close>) and the root are directories of every file system.
\<close>

datatype node = File string | Dir

type_synonym location = "string list"

record filesystem =
  nodes :: "location \<rightharpoonup> node"
  locked :: "location set"

definition anchored :: "location \<Rightarrow> bool" where
  "anchored loc = (loc = [''/''] \<or> (\<forall>c \<in> set loc. c = ''..''))"

definition node_at :: "filesystem \<Rightarrow> location \<Rightarrow> node option" where
  "node_at fs loc = (if anchored loc then Some Dir else nodes fs loc)"

datatype call =
    ToPhylip path
  | Commandline
  | SubprocessRun "string list"
  | ReadNewick path
  | Combine
  | Reconstruct
  | ReadHandler string path

record world =
  fsys :: filesystem
  calls :: "call list"

definition called :: "call \<Rightarrow> world \<Rightarrow> world" where
  "called c w = w\<lparr>calls := calls w @ [c]\<rparr>"

text \<open>
  Path resolution. A path is cut at every \<open>/\<close>; the names are followed one by one from the
  root (when the path begins with \<open>/\<close>) or from the working directory. An empty name and
  \<open>.\<close> stay where they are, \<open>..\<close> goes to the parent. A name can only be followed from a
  directory: from a regular file the walk fails with \<open>NotDir\<close> (ENOTDIR), from nothing with
  \<open>Missing\<close> (ENOENT). The empty path resolves to nothing.
\<close>

fun split_slash :: "string \<Rightarrow> string \<Rightarrow> string list" where
  "split_slash acc [] = [rev acc]"
| "split_slash acc (c # cs) =
     (if c = CHR ''/'' then rev acc # split_slash [] cs else split_slash (c # acc) cs)"

definition components :: "path \<Rightarrow> string list" where
  "components p = split_slash [] p"

definition start :: "path \<Rightarrow> location" where
  "start p = (if p \<noteq> [] \<and> hd p = CHR ''/'' then [''/''] else [])"

definition step :: "location \<Rightarrow> string \<Rightarrow> location" where
  "step cur c =
     (if c = [] \<or> c = ''.'' then cur
      else if c = ''..'' then
        (if cur = [''/''] then cur
         else if \<forall>d \<in> set cur. d = ''..'' then cur @ [''..'']
         else butlast cur)
      else cur @ [c])"

datatype fault = Missing | NotDir

fun walk :: "filesystem \<Rightarrow> location \<Rightarrow> string list \<Rightarrow> fault + location" where
  "walk fs cur [] = Inr cur"
| "walk fs cur (c # cs) =
     (case node_at fs cur of
        Some Dir \<Rightarrow> walk fs (step cur c) cs
      | Some (File b) \<Rightarrow> Inl NotDir
      | None \<Rightarrow> Inl Missing)"

definition resolve :: "filesystem \<Rightarrow> path \<Rightarrow> fault + location" where
  "resolve fs p = (if p = [] then Inl Missing else walk fs (start p) (components p))"

definition raised :: "fault \<Rightarrow> path \<Rightarrow> error" where
  "raised f p = (case f of Missing \<Rightarrow> FileNotFoundError p | NotDir \<Rightarrow> NotADirectoryError p)"

text \<open>\<open>os.path.exists\<close>, and the contents of the regular file a path names, if it names one.\<close>

definition os_path_exists :: "filesystem \<Rightarrow> path \<Rightarrow> bool" where
  "os_path_exists fs p =
     (case resolve fs p of Inl f \<Rightarrow> False | Inr loc \<Rightarrow> node_at fs loc \<noteq> None)"

definition files :: "filesystem \<Rightarrow> path \<Rightarrow> string option" where
  "files fs p =
     (case resolve fs p of
        Inl f \<Rightarrow> None
      | Inr loc \<Rightarrow> (case node_at fs loc of Some (File b) \<Rightarrow> Some b | _ \<Rightarrow> None))"

text \<open>
  \<open>os.mkdir\<close>. Trailing slashes are dropped; the names before the last must lead to a
  directory; the last name must be new there (\<open>.\<close> and \<open>..\<close> never are).
\<close>

definition rstrip :: "path \<Rightarrow> path" where
  "rstrip p = rev (dropWhile (\<lambda>c. c = CHR ''/'') (rev p))"

definition parent_of :: "filesystem \<Rightarrow> path \<Rightarrow> error + location \<times> string" where
  "parent_of fs p =
     (let cs = components (rstrip p) in
      case walk fs (start p) (butlast cs) of
        Inl f \<Rightarrow> Inl (raised f p)
      | Inr loc \<Rightarrow>
          (case node_at fs loc of
             Some Dir \<Rightarrow> Inr (loc, last cs)
           | Some (File b) \<Rightarrow> Inl (NotADirectoryError p)
           | None \<Rightarrow> Inl (FileNotFoundError p)))"








text \<open>\<open>os.path.join\<close> (POSIX, two arguments).\<close>

definition os_path_join :: "path \<Rightarrow> path \<Rightarrow> path" where
  "os_path_join a b =
     (if b \<noteq> [] \<and> hd b = CHR ''/'' then b
      else if a = [] \<or> last a = CHR ''/'' then a @ b
      else a @ ''/'' @ b)"

text \<open>
  \<open>open(filename, 'rb')\<close> followed by reading the whole file. A path that does not resolve
  is reported as a missing file, whether a name on the way is missing or is a regular file
  (where Python has \<open>NotADirectoryError\<close>).
\<close>

definition open_rb :: "filesystem \<Rightarrow> path \<Rightarrow> error + string" where
  "open_rb fs p =
     (case resolve fs p of
        Inl f \<Rightarrow> Inl (FileNotFoundError p)
      | Inr loc \<Rightarrow>
          (case node_at fs loc of
             Some (File b) \<Rightarrow> Inr b
           | Some Dir \<Rightarrow> Inl (IsADirectoryError p)
           | None \<Rightarrow> Inl (FileNotFoundError p)))"

text \<open>
  \<open>open(filename, 'wb')\<close>, which creates the file or empties it. A trailing slash, \<open>.\<close>,
  \<open>..\<close> and a directory are refused as directories.
\<close>

definition open_wb :: "filesystem \<Rightarrow> path \<Rightarrow> error + filesystem" where
  "open_wb fs p =
     (if p = [] then Inl (FileNotFoundError p)
      else if rstrip p = [] then Inl (IsADirectoryError p)
      else case parent_of fs p of
        Inl e \<Rightarrow> Inl e
      | Inr (loc, c) \<Rightarrow>
          if rstrip p \<noteq> p \<or> c = ''.'' \<or> c = ''..'' \<or> node_at fs (step loc c) = Some Dir
          then Inl (IsADirectoryError p)
          else if (if node_at fs (step loc c) = None then loc else step loc c) \<in> locked fs
          then Inl (PermissionError p)
          else Inr (fs\<lparr>nodes := (nodes fs)(step loc c \<mapsto> File [])\<rparr>))"

text \<open>Writing the contents of the file a path names (after \<open>open\<close>, or by a tool).\<close>

definition write_bytes :: "filesystem \<Rightarrow> path \<Rightarrow> string \<Rightarrow> filesystem" where
  "write_bytes fs p b =
     (case resolve fs p of
        Inl f \<Rightarrow> fs
      | Inr loc \<Rightarrow> fs\<lparr>nodes := (nodes fs)(loc \<mapsto> File b)\<rparr>)"

text \<open>
  \<open>str.split()\<close> with no argument. A \<open>char\<close> is a code point below 256; these are the ones
  Python counts as white space.
\<close>

definition is_space :: "char \<Rightarrow> bool" where
  "is_space c = (c \<in> set [CHR 0x20, CHR 0x09, CHR 0x0A, CHR 0x0B, CHR 0x0C, CHR 0x0D,
                           CHR 0x1C, CHR 0x1D, CHR 0x1E, CHR 0x1F, CHR 0x85, CHR 0xA0])"

fun split_from :: "string \<Rightarrow> string \<Rightarrow> string list" where
  "split_from acc [] = (if acc = [] then [] else [rev acc])"
| "split_from acc (c # cs) =
     (if is_space c then (if acc = [] then split_from [] cs else rev acc # split_from [] cs)
      else split_from (c # acc) cs)"

definition py_split :: "string \<Rightarrow> string list" where
  "py_split s = split_from [] s"

subsection \<open>The third-party routines\<close>

type_synonym kwargs = "string \<rightharpoonup> pyval"

type_synonym handler = "path \<Rightarrow> kwargs \<Rightarrow> filesystem \<Rightarrow> error + table"

text \<open>
  \<^item> \<open>phylo_to_phylip\<close>: \<open>DataFrame.phylo.to_phylip(filename=path)\<close>;
  \<^item> \<open>PhymlCommandline\<close>: \<open>str(Bio.Phylo.Applications.PhymlCommandline(**options))\<close>;
  \<^item> \<open>subprocess_run\<close>: \<open>subprocess.run(args)\<close>, which raises when the program cannot be
    started and otherwise returns the exit code once the program has exited;
  \<^item> \<open>newick_parse\<close>: what \<open>phylopandas.read_newick\<close> makes of a file's contents;
  \<^item> \<open>phylo_combine\<close>: \<open>DataFrame.phylo.combine(other, on=...)\<close>;
  \<^item> \<open>pyasr_reconstruct\<close>: \<open>pyasr.reconstruct(df, **keywords)\<close>;
  \<^item> \<open>phylo_getattr\<close>, \<open>dataframe_getattr\<close>: \<open>getattr\<close> on \<open>DataFrame.phylo\<close> and on the
    DataFrame, \<open>None\<close> when it raises;
  \<^item> \<open>pickle_dumps\<close>, \<open>pickle_loads\<close>: pickle.
  The writer, the process and the reconstruction return \<open>Inl (e, fs)\<close> when they raise \<open>e\<close>
  and leave the file system \<open>fs\<close>.
\<close>

record env =
  phylo_to_phylip :: "table \<Rightarrow> path \<Rightarrow> filesystem \<Rightarrow> error \<times> filesystem + filesystem"
  PhymlCommandline :: "kwargs \<Rightarrow> error + string"
  subprocess_run :: "string list \<Rightarrow> filesystem \<Rightarrow> error \<times> filesystem + int \<times> filesystem"
  newick_parse :: "string \<Rightarrow> error + table"
  phylo_combine :: "table \<Rightarrow> table \<Rightarrow> string \<Rightarrow> error + table"
  pyasr_reconstruct ::
    "table \<Rightarrow> kwargs \<Rightarrow> filesystem \<Rightarrow> error \<times> filesystem + table \<times> filesystem"
  phylo_getattr :: "table \<Rightarrow> string \<Rightarrow> handler option"
  dataframe_getattr :: "table \<Rightarrow> string \<Rightarrow> handler option"
  pickle_dumps :: "py_obj \<Rightarrow> error + string"
  pickle_loads :: "string \<Rightarrow> error + py_obj"

text \<open>\<open>phylopandas.read_newick(path)\<close>: the file is opened, then parsed.\<close>

definition read_newick :: "env \<Rightarrow> filesystem \<Rightarrow> path \<Rightarrow> error + table" where
  "read_newick env fs p =
     (case open_rb fs p of Inl e \<Rightarrow> Inl e | Inr content \<Rightarrow> newick_parse env content)"

subsection \<open>\<open>__init__\<close>, \<open>load_pickle\<close>, \<open>to_pickle\<close>\<close>

definition project_columns :: "string list" where
  "project_columns =
     [''uid'', ''description'', ''id'', ''label'', ''sequence'', ''type'', ''parent'',
      ''branch_length'']"



definition load_pickle :: "env \<Rightarrow> path \<Rightarrow> world \<Rightarrow> (error + py_obj) \<times> world" where
  "load_pickle env filename w =
     (case open_rb (fsys w) filename of
        Inl e \<Rightarrow> (Inl e, w)
      | Inr b \<Rightarrow> (pickle_loads env b, w))"

definition to_pickle :: "env \<Rightarrow> path \<Rightarrow> project \<Rightarrow> world \<Rightarrow> error option \<times> project \<times> world" where
  "to_pickle env filename self w =
     (case open_wb (fsys w) filename of
        Inl e \<Rightarrow> (Some e, self, w)
      | Inr fs \<Rightarrow>
          (case pickle_dumps env (Project self) of
             Inl e \<Rightarrow> (Some e, self, w\<lparr>fsys := fs\<rparr>)
           | Inr b \<Rightarrow> (None, self, w\<lparr>fsys := write_bytes fs filename b\<rparr>)))"

subsection \<open>\<open>read_data\<close>\<close>

definition read_data ::
  "env \<Rightarrow> path \<Rightarrow> string \<Rightarrow> kwargs \<Rightarrow> project \<Rightarrow> world \<Rightarrow> error option \<times> project \<times> world" where
  "read_data env p schema kw self w =
     (let method_name = ''read_'' @ schema;
          found = (case phylo_getattr env (data self) method_name of
                     Some m \<Rightarrow> Some m
                   | None \<Rightarrow> dataframe_getattr env (data self) method_name)
      in case found of
           None \<Rightarrow> (Some (AttributeError method_name), self, w)
         | Some method \<Rightarrow>
             (case method p kw (fsys w) of
                Inl e \<Rightarrow> (Some e, self, called (ReadHandler method_name p) w)
              | Inr t \<Rightarrow> (None, self\<lparr>data := t\<rparr>, called (ReadHandler method_name p) w)))"

subsection \<open>\<open>compute_tree\<close>\<close>

text \<open>
  The keyword dictionary built in lines 96 to 105: the five entries, then
  \<open>options.update(**kwargs)\<close>.
\<close>

definition tree_options ::
  "path \<Rightarrow> pyval \<Rightarrow> pyval \<Rightarrow> pyval \<Rightarrow> pyval \<Rightarrow> kwargs \<Rightarrow> kwargs" where
  "tree_options p datatype' bootstrap model frequencies kw =
     [''input'' \<mapsto> PyStr p, ''datatype'' \<mapsto> datatype', ''bootstrap'' \<mapsto> bootstrap,
      ''model'' \<mapsto> model, ''frequencies'' \<mapsto> frequencies] ++ kw"

text \<open>
  \<open>tree_data.loc[tree_data.type == 'leaf', 'uid'] = tree_data.id\<close>. The right-hand side is
  evaluated first; a column that is missing is an \<open>AttributeError\<close>; assigning to a column
  \<open>uid\<close> that is missing adds it, with \<open>NaN\<close> in the rows not selected.
\<close>

definition swap_leaf_uids :: "table \<Rightarrow> error + table" where
  "swap_leaf_uids t =
     (if ''id'' \<notin> set (columns t) then Inl (AttributeError ''id'')
      else if ''type'' \<notin> set (columns t) then Inl (AttributeError ''type'')
      else Inr \<lparr>columns = (if ''uid'' \<in> set (columns t) then columns t
                           else columns t @ [''uid'']),
                rows = map (\<lambda>r. if cell r ''type'' = PyStr ''leaf''
                                 then set_cell ''uid'' (cell r ''id'') r
                                 else if ''uid'' \<in> set (columns t) then r
                                 else set_cell ''uid'' NaN r) (rows t)\<rparr>)"

text \<open>Lines 115 to 120: the path of PhyML's tree file.\<close>

definition tree_outpath :: "filesystem \<Rightarrow> path \<Rightarrow> path" where
  "tree_outpath fs dir =
     (let outfile = ''compute_tree.phy_phyml_tree'';
          outpath = os_path_join dir outfile
      in if \<not> os_path_exists fs outpath then outpath @ ''.txt'' else outpath)"

text \<open>Lines 125 to 131: read the tree, re-identify the leaves, combine, assign.\<close>

definition update_dataframe ::
  "env \<Rightarrow> path \<Rightarrow> project \<Rightarrow> world \<Rightarrow> error option \<times> project \<times> world" where
  "update_dataframe env outpath self w =
     (let w1 = called (ReadNewick outpath) w in
      case read_newick env (fsys w) outpath of
        Inl e \<Rightarrow> (Some e, self, w1)
      | Inr tree_data \<Rightarrow>
          (case swap_leaf_uids tree_data of
             Inl e \<Rightarrow> (Some e, self, w1)
           | Inr tree_data' \<Rightarrow>
               (case phylo_combine env (data self) tree_data' ''uid'' of
                  Inl e \<Rightarrow> (Some e, self, called Combine w1)
                | Inr d \<Rightarrow> (None, self\<lparr>data := d\<rparr>, called Combine w1))))"

definition compute_tree ::
  "env \<Rightarrow> pyval \<Rightarrow> pyval \<Rightarrow> pyval \<Rightarrow> pyval \<Rightarrow> pyval \<Rightarrow> kwargs \<Rightarrow> project \<Rightarrow> world
     \<Rightarrow> error option \<times> project \<times> world" where
  "compute_tree env sequence_col datatype' bootstrap model frequencies kw self w =
     (let fname = ''compute_tree.phy'';
          p = os_path_join (project_dir self) fname;
          w1 = called (ToPhylip p) w
      in case phylo_to_phylip env (data self) p (fsys w) of
           Inl (e, fs') \<Rightarrow> (Some e, self, w1\<lparr>fsys := fs'\<rparr>)
         | Inr fs1 \<Rightarrow>
             (let options = tree_options p datatype' bootstrap model frequencies kw;
                  w2 = called Commandline (w1\<lparr>fsys := fs1\<rparr>)
              in case PhymlCommandline env options of
                   Inl e \<Rightarrow> (Some e, self, w2)
                 | Inr cml \<Rightarrow>
                     (let cml_args = py_split cml;
                          w3 = called (SubprocessRun cml_args) w2
                      in case subprocess_run env cml_args fs1 of
                           Inl (e, fs') \<Rightarrow> (Some e, self, w3\<lparr>fsys := fs'\<rparr>)
                         | Inr (output, fs2) \<Rightarrow>
                             update_dataframe env (tree_outpath fs2 (project_dir self)) self
                               (w3\<lparr>fsys := fs2\<rparr>))))"

text \<open>
  A call \<open>compute_tree(**given)\<close> on an object: a keyword that names a parameter is bound
  to it, a parameter that is not given takes its default, the other keywords are \<open>kwargs\<close>.
  The keyword \<open>self\<close> names the parameter the object is bound to already, and Python
  raises \<open>TypeError\<close>.
\<close>

definition tree_parameters :: "string list" where
  "tree_parameters = [''sequence_col'', ''datatype'', ''bootstrap'', ''model'', ''frequencies'']"

definition given_or :: "kwargs \<Rightarrow> string \<Rightarrow> pyval \<Rightarrow> pyval" where
  "given_or given k d = (case given k of Some v \<Rightarrow> v | None \<Rightarrow> d)"

definition rest_of :: "kwargs \<Rightarrow> string list \<Rightarrow> kwargs" where
  "rest_of given names = (\<lambda>k. if k \<in> set names then None else given k)"

definition compute_tree_call ::
  "env \<Rightarrow> kwargs \<Rightarrow> project \<Rightarrow> world \<Rightarrow> error option \<times> project \<times> world" where
  "compute_tree_call env given self w =
     (if given ''self'' \<noteq> None
      then (Some (TypeError ''compute_tree() got multiple values for argument self''), self, w)
      else compute_tree env
        (given_or given ''sequence_col'' (PyStr ''sequence''))
        (given_or given ''datatype'' (PyStr ''aa''))
        (given_or given ''bootstrap'' (PyStr ''-1''))
        (given_or given ''model'' (PyStr ''LG''))
        (given_or given ''frequencies'' (PyStr ''e''))
        (rest_of given tree_parameters) self w)"

subsection \<open>\<open>compute_reconstruction\<close>\<close>

text \<open>
  The call passes five keywords and then \<open>**kwargs\<close>; Python raises \<open>TypeError\<close> when
  \<open>kwargs\<close> repeats one of them.
\<close>

definition reconstruct_keywords :: "string list" where
  "reconstruct_keywords =
     [''id_col'', ''sequence_col'', ''working_dir'', ''altall_cutoff'', ''aaRatefile'']"

definition compute_reconstruction ::
  "env \<Rightarrow> pyval \<Rightarrow> pyval \<Rightarrow> pyval \<Rightarrow> pyval \<Rightarrow> kwargs \<Rightarrow> project \<Rightarrow> world
     \<Rightarrow> error option \<times> project \<times> world" where
  "compute_reconstruction env id_col sequence_col altall_cutoff aaRatefile kw self w =
     (if \<exists>k \<in> set reconstruct_keywords. kw k \<noteq> None
      then (Some (TypeError ''got multiple values for keyword argument''), self, w)
      else
        (let keywords = [''id_col'' \<mapsto> id_col, ''sequence_col'' \<mapsto> sequence_col,
                         ''working_dir'' \<mapsto> PyStr (project_dir self),
                         ''altall_cutoff'' \<mapsto> altall_cutoff,
                         ''aaRatefile'' \<mapsto> aaRatefile] ++ kw;
             w1 = called Reconstruct w
         in case pyasr_reconstruct env (data self) keywords (fsys w) of
              Inl (e, fs') \<Rightarrow> (Some e, self, w1\<lparr>fsys := fs'\<rparr>)
            | Inr (df, fs) \<Rightarrow> (None, self\<lparr>data := df\<rparr>, w1\<lparr>fsys := fs\<rparr>)))"

text \<open>The keyword dictionary of a call \<open>compute_tree(**given)\<close> on \<open>self\<close>.\<close>

definition call_options :: "kwargs \<Rightarrow> project \<Rightarrow> kwargs" where
  "call_options given self =
     tree_options (os_path_join (project_dir self) ''compute_tree.phy'')
       (given_or given ''datatype'' (PyStr ''aa''))
       (given_or given ''bootstrap'' (PyStr ''-1''))
       (given_or given ''model'' (PyStr ''LG''))
       (given_or given ''frequencies'' (PyStr ''e''))
       (rest_of given tree_parameters)"

subsection \<open>The PHYLIP writer on a frame without rows\<close>

text \<open>
  \<open>to_phylip\<close> hands the rows to Biopython's \<open>SeqIO.write\<close>, which opens the file for
  writing and then refuses an alignment without sequences. This is what it does to the file
  system and what it raises.
\<close>

definition write_nothing :: "filesystem \<Rightarrow> path \<Rightarrow> error \<times> filesystem + filesystem" where
  "write_nothing fs p =
     (case open_wb fs p of
        Inl e \<Rightarrow> Inl (e, fs)
      | Inr fs' \<Rightarrow> Inl (ValueError ''Must have at least one sequence'', fs'))"

subsection \<open>A stub environment\<close>

text \<open>
  Stand-ins for the third-party routines, to run the methods on: the PHYLIP writer writes a
  file whatever the frame holds, PhyML exits with code 1 and leaves its tree under the old
  file name, the Newick reader returns a tree of two leaves and one inner node, \<open>combine\<close>
  appends the rows, the reconstruction fails, and pickle knows the stub project and one
  integer. The stub file system holds a sequence file, a pickled integer, the project
  directory and a directory that is closed to writing.
\<close>

definition stub_row :: "string \<Rightarrow> string \<Rightarrow> string \<Rightarrow> row" where
  "stub_row u i t = [(''uid'', PyStr u), (''id'', PyStr i), (''type'', PyStr t)]"

definition stub_tree :: table where
  "stub_tree = \<lparr>columns = [''uid'', ''id'', ''type''],
                 rows = [stub_row ''0'' ''A'' ''leaf'', stub_row ''1'' ''B'' ''leaf'',
                         stub_row ''2'' ''n'' ''node'']\<rparr>"

definition stub_project :: project where
  "stub_project = \<lparr>project_dir = ''proj'', data = \<lparr>columns = project_columns, rows = []\<rparr>\<rparr>"

definition stub_fasta :: handler where
  "stub_fasta p kw fs = (case files fs p of None \<Rightarrow> Inl (FileNotFoundError p)
                                          | Some b \<Rightarrow> Inr stub_tree)"

definition stub_env :: env where
  "stub_env =
     \<lparr>phylo_to_phylip = (\<lambda>t p fs. Inr (write_bytes fs p ''phylip'')),
      PhymlCommandline = (\<lambda>options. Inr ''phyml -i proj/compute_tree.phy''),
      subprocess_run = (\<lambda>args fs.
         Inr (1, write_bytes fs ''proj/compute_tree.phy_phyml_tree.txt'' ''(A,B);'')),
      newick_parse = (\<lambda>content. Inr stub_tree),
      phylo_combine = (\<lambda>l r on. Inr \<lparr>columns = columns l, rows = rows l @ rows r\<rparr>),
      pyasr_reconstruct = (\<lambda>df keywords fs. Inl (External ''ReconstructionError'', fs)),
      phylo_getattr = (\<lambda>t name. if name = ''read_fasta'' then Some stub_fasta else None),
      dataframe_getattr = (\<lambda>t name. if name = ''read_table'' then Some stub_fasta else None),
      pickle_dumps = (\<lambda>x. if x = Project stub_project then Inr ''P''
                            else Inl (External ''PicklingError'')),
      pickle_loads = (\<lambda>b. if b = ''P'' then Inr (Project stub_project)
                            else if b = ''I'' then Inr (Value (PyInt 3))
                            else Inl (External ''UnpicklingError''))\<rparr>"

definition stub_fs :: filesystem where
  "stub_fs = \<lparr>nodes = [[''seqs.fasta''] \<mapsto> File ''>A'', [''three.pkl''] \<mapsto> File ''I'',
                       [''proj''] \<mapsto> Dir, [''sealed''] \<mapsto> Dir],
               locked = {[''sealed'']}\<rparr>"

definition stub_world :: world where
  "stub_world = \<lparr>fsys = stub_fs, calls = []\<rparr>"

text \<open>
  Variations: no PhyML on the path; a PhyML that writes no tree; the PHYLIP writer as it is
  on a frame without rows; a command-line builder that spells the options out. And the stub
  project after sequences were read into it.
\<close>

definition stub_env_no_phyml :: env where
  "stub_env_no_phyml =
     stub_env\<lparr>subprocess_run := (\<lambda>args fs. Inl (FileNotFoundError ''phyml'', fs))\<rparr>"

definition stub_env_no_output :: env where
  "stub_env_no_output = stub_env\<lparr>subprocess_run := (\<lambda>args fs. Inr (1, fs))\<rparr>"

definition stub_env_strict_writer :: env where
  "stub_env_strict_writer =
     stub_env\<lparr>phylo_to_phylip := (\<lambda>t p fs.
        if rows t = [] then write_nothing fs p else Inr (write_bytes fs p ''phylip''))\<rparr>"

definition spelled :: "kwargs \<Rightarrow> error + string" where
  "spelled options =
     (case (options ''input'', options ''datatype'', options ''bootstrap'', options ''model'',
            options ''frequencies'') of
        (Some (PyStr i), Some (PyStr d), Some (PyStr b), Some (PyStr m), Some (PyStr f)) \<Rightarrow>
          Inr (''phyml -i '' @ i @ '' -d '' @ d @ '' -b '' @ b @ '' -m '' @ m @ '' -f '' @ f)
      | _ \<Rightarrow> Inl (ValueError ''option''))"

definition stub_env_spelling :: env where
  "stub_env_spelling = stub_env_strict_writer\<lparr>PhymlCommandline := spelled\<rparr>"

definition stub_loaded :: project where
  "stub_loaded = stub_project\<lparr>data := stub_tree\<rparr>"

section \<open>Properties\<close>

subsection \<open>Paths and files\<close>

lemma split_slash_nonempty: "split_slash acc p \<noteq> []"
  by (induction p arbitrary: acc) auto


lemma walk_append:
  "walk fs cur (xs @ [c]) =
     (case walk fs cur xs of
        Inl f \<Rightarrow> Inl f
      | Inr loc \<Rightarrow>
          (case node_at fs loc of
             Some Dir \<Rightarrow> Inr (step loc c)
           | Some (File b) \<Rightarrow> Inl NotDir
           | None \<Rightarrow> Inl Missing))"
  by (induction xs arbitrary: cur) (auto split: option.splits node.splits)

lemma walk_same_dirs:
  assumes "\<And>l. (node_at fs' l = Some Dir) = (node_at fs l = Some Dir)"
  shows "walk fs cur cs = Inr loc \<Longrightarrow> walk fs' cur cs = Inr loc"
proof (induction cs arbitrary: cur)
  case Nil
  then show ?case by simp
next
  case (Cons c cs)
  from Cons.prems have dir: "node_at fs cur = Some Dir"
    by (auto split: option.splits node.splits)
  with assms have "node_at fs' cur = Some Dir"
    by simp
  with dir Cons show ?case
    by simp
qed

lemma resolve_after_file:
  assumes "resolve fs p = Inr loc" and "\<not> anchored loc" and "node_at fs loc \<noteq> Some Dir"
  shows "resolve (fs\<lparr>nodes := (nodes fs)(loc \<mapsto> File b)\<rparr>) p = Inr loc"
proof -
  have "(node_at (fs\<lparr>nodes := (nodes fs)(loc \<mapsto> File b)\<rparr>) l = Some Dir) = (node_at fs l = Some Dir)"
    for l
    using assms(2,3) by (auto simp: node_at_def)
  from walk_same_dirs [OF this] assms(1) show ?thesis
    by (auto simp: resolve_def split: if_splits)
qed

lemma open_wb_resolves:
  assumes "open_wb fs p = Inr fs'"
  shows "\<exists>loc. resolve fs p = Inr loc \<and> \<not> anchored loc \<and> node_at fs loc \<noteq> Some Dir \<and>
               fs' = fs\<lparr>nodes := (nodes fs)(loc \<mapsto> File [])\<rparr>"
proof -
  from assms have p: "p \<noteq> []" and strip: "rstrip p = p"
    by (auto simp: open_wb_def split: if_splits sum.splits prod.splits)
  from assms p strip obtain loc c where par: "parent_of fs p = Inr (loc, c)"
    and notdir: "node_at fs (step loc c) \<noteq> Some Dir"
    and fs': "fs' = fs\<lparr>nodes := (nodes fs)(step loc c \<mapsto> File [])\<rparr>"
    by (auto simp: open_wb_def split: if_splits sum.splits prod.splits)
  let ?cs = "components p"
  from par strip have w: "walk fs (start p) (butlast ?cs) = Inr loc"
    and d: "node_at fs loc = Some Dir" and c: "c = last ?cs"
    by (auto simp: parent_of_def Let_def split: sum.splits option.splits node.splits)
  have "?cs = butlast ?cs @ [last ?cs]"
    by (simp add: components_def split_slash_nonempty)
  then have "walk fs (start p) ?cs = walk fs (start p) (butlast ?cs @ [c])"
    using c by simp
  also have "\<dots> = Inr (step loc c)"
    using w d by (simp add: walk_append)
  finally have "resolve fs p = Inr (step loc c)"
    using p by (simp add: resolve_def)
  moreover have "\<not> anchored (step loc c)"
    using notdir by (auto simp: node_at_def)
  ultimately show ?thesis
    using notdir fs' by blast
qed

lemma open_wb_files:
  assumes "open_wb fs p = Inr fs'"
  shows "files fs' p = Some []"
proof -
  from open_wb_resolves [OF assms] obtain loc where
    r: "resolve fs p = Inr loc" and free: "\<not> anchored loc"
    and nd: "node_at fs loc \<noteq> Some Dir"
    and fs': "fs' = fs\<lparr>nodes := (nodes fs)(loc \<mapsto> File [])\<rparr>"
    by blast
  have "resolve fs' p = Inr loc"
    unfolding fs' by (rule resolve_after_file [OF r free nd])
  moreover have "node_at fs' loc = Some (File [])"
    using free by (simp add: fs' node_at_def)
  ultimately show ?thesis
    by (simp add: files_def)
qed

lemma open_rb_missing: "\<not> os_path_exists fs p \<Longrightarrow> open_rb fs p = Inl (FileNotFoundError p)"
  by (auto simp: os_path_exists_def open_rb_def split: sum.splits option.splits node.splits)

lemma open_rb_file: "files fs p = Some b \<Longrightarrow> open_rb fs p = Inr b"
  by (auto simp: files_def open_rb_def split: sum.splits option.splits node.splits)



subsection \<open>Auxiliary facts about the methods\<close>

lemma cell_set_cell: "cell (set_cell c v r) c' = (if c' = c then v else cell r c')"
  by (induction r) (auto simp: cell_def)

lemma swap_leaf_uids_rows:
  "swap_leaf_uids t = Inr t' \<Longrightarrow>
   rows t' = map (\<lambda>r. if cell r ''type'' = PyStr ''leaf''
                        then set_cell ''uid'' (cell r ''id'') r
                        else if ''uid'' \<in> set (columns t) then r
                        else set_cell ''uid'' NaN r) (rows t)"
  by (auto simp: swap_leaf_uids_def split: if_splits)

lemma update_dataframe_ok:
  "update_dataframe env outpath self w = (None, self', w') \<Longrightarrow>
   \<exists>tree_data tree_data'.
     read_newick env (fsys w) outpath = Inr tree_data \<and>
     swap_leaf_uids tree_data = Inr tree_data' \<and>
     phylo_combine env (data self) tree_data' ''uid'' = Inr (data self') \<and>
     fsys w' = fsys w"
  by (auto simp: update_dataframe_def called_def Let_def split: sum.splits)

lemma update_dataframe_Commandline:
  "update_dataframe (env\<lparr>PhymlCommandline := f\<rparr>) outpath self w =
   update_dataframe env outpath self w"
  by (auto simp: update_dataframe_def read_newick_def Let_def split: sum.splits)

lemma compute_tree_Commandline:
  assumes same:
    "f (tree_options (os_path_join (project_dir self) ''compute_tree.phy'')
          datatype' bootstrap model frequencies kw) =
     PhymlCommandline env (tree_options (os_path_join (project_dir self) ''compute_tree.phy'')
          datatype' bootstrap model frequencies kw)"
  shows "compute_tree (env\<lparr>PhymlCommandline := f\<rparr>) sequence_col datatype' bootstrap model
           frequencies kw self w =
         compute_tree env sequence_col datatype' bootstrap model frequencies kw self w"
  unfolding compute_tree_def Let_def
  by (simp add: same update_dataframe_Commandline split: sum.splits prod.splits)

lemma call_options_given:
  "given k = Some v \<Longrightarrow> k \<noteq> ''sequence_col'' \<Longrightarrow> call_options given self k = Some v"
  unfolding call_options_def tree_options_def given_or_def rest_of_def tree_parameters_def
  by (simp add: map_add_def) (intro conjI impI; simp)

lemma call_options_default:
  "given k = None \<Longrightarrow>
   call_options given self k =
     [''input'' \<mapsto> PyStr (os_path_join (project_dir self) ''compute_tree.phy''),
      ''datatype'' \<mapsto> PyStr ''aa'', ''bootstrap'' \<mapsto> PyStr ''-1'', ''model'' \<mapsto> PyStr ''LG'',
      ''frequencies'' \<mapsto> PyStr ''e''] k"
  unfolding call_options_def tree_options_def given_or_def rest_of_def tree_parameters_def
  by (simp add: map_add_def) (intro conjI impI; simp)

lemma update_dataframe_calls:
  "calls (snd (snd (update_dataframe env outpath self w))) =
     calls w @ [ReadNewick outpath] \<or>
   calls (snd (snd (update_dataframe env outpath self w))) =
     calls w @ [ReadNewick outpath, Combine]"
  by (auto simp: update_dataframe_def called_def Let_def split: sum.splits)

lemma compute_tree_after_run:
  assumes "phylo_to_phylip env (data self) (os_path_join (project_dir self) ''compute_tree.phy'')
             (fsys w) = Inr fs1"
    and "PhymlCommandline env
           (tree_options (os_path_join (project_dir self) ''compute_tree.phy'')
              datatype' bootstrap model frequencies kw) = Inr cml"
    and "subprocess_run env (py_split cml) fs1 = Inr (rc, fs2)"
  shows "compute_tree env sequence_col datatype' bootstrap model frequencies kw self w =
         update_dataframe env (tree_outpath fs2 (project_dir self)) self
           (w\<lparr>calls := calls w @ [ToPhylip (os_path_join (project_dir self) ''compute_tree.phy''),
                                Commandline, SubprocessRun (py_split cml)],
              fsys := fs2\<rparr>)"
  using assms by (simp add: compute_tree_def Let_def called_def)

lemma update_dataframe_missing:
  "\<not> os_path_exists (fsys w) outpath \<Longrightarrow>
   update_dataframe env outpath self w =
     (Some (FileNotFoundError outpath), self, called (ReadNewick outpath) w)"
  by (simp add: update_dataframe_def read_newick_def open_rb_missing Let_def)

lemma update_dataframe_found:
  "files (fsys w) outpath = Some content \<Longrightarrow> newick_parse env content = Inr t \<Longrightarrow>
   swap_leaf_uids t = Inr t' \<Longrightarrow> phylo_combine env (data self) t' ''uid'' = Inr d \<Longrightarrow>
   update_dataframe env outpath self w =
     (None, self\<lparr>data := d\<rparr>, called Combine (called (ReadNewick outpath) w))"
  by (simp add: update_dataframe_def read_newick_def open_rb_file Let_def)

lemma compute_tree_call_defaults:
  "compute_tree_call env Map.empty self w =
   compute_tree env (PyStr ''sequence'') (PyStr ''aa'') (PyStr ''-1'') (PyStr ''LG'') (PyStr ''e'')
     Map.empty self w"
  by (simp add: compute_tree_call_def given_or_def rest_of_def)

subsection \<open>The methods on the stub environment\<close>

lemmas stub_defs =
  stub_env_def stub_world_def stub_fs_def stub_project_def stub_tree_def stub_row_def
  stub_fasta_def stub_env_no_phyml_def stub_env_no_output_def stub_env_strict_writer_def
  stub_env_spelling_def stub_loaded_def spelled_def write_nothing_def

lemmas path_defs =
  os_path_exists_def files_def resolve_def components_def start_def step_def node_at_def
  anchored_def open_rb_def open_wb_def write_bytes_def parent_of_def rstrip_def raised_def
  os_path_join_def

lemmas model_defs =
  compute_tree_call_def compute_tree_def update_dataframe_def read_newick_def tree_outpath_def
  swap_leaf_uids_def tree_options_def given_or_def rest_of_def tree_parameters_def
  called_def py_split_def is_space_def project_columns_def cell_def Let_def


lemmas options_defs =
  call_options_def tree_options_def given_or_def rest_of_def tree_parameters_def map_add_def

lemma stub_call_succeeds:
  "compute_tree_call stub_env Map.empty stub_project stub_world =
     (None,
      stub_project\<lparr>data := \<lparr>columns = project_columns,
                               rows = [stub_row ''A'' ''A'' ''leaf'', stub_row ''B'' ''B'' ''leaf'',
                                       stub_row ''2'' ''n'' ''node'']\<rparr>\<rparr>,
      \<lparr>fsys = write_bytes (write_bytes stub_fs ''proj/compute_tree.phy'' ''phylip'')
                 ''proj/compute_tree.phy_phyml_tree.txt'' ''(A,B);'',
       calls = [ToPhylip ''proj/compute_tree.phy'', Commandline,
                SubprocessRun [''phyml'', ''-i'', ''proj/compute_tree.phy''],
                ReadNewick ''proj/compute_tree.phy_phyml_tree.txt'', Combine]\<rparr>)"
  by (simp add: stub_defs model_defs path_defs)

lemma stub_call_no_phyml:
  "compute_tree_call stub_env_no_phyml Map.empty stub_project stub_world =
     (Some (FileNotFoundError ''phyml''), stub_project,
      \<lparr>fsys = write_bytes stub_fs ''proj/compute_tree.phy'' ''phylip'',
       calls = [ToPhylip ''proj/compute_tree.phy'', Commandline,
                SubprocessRun [''phyml'', ''-i'', ''proj/compute_tree.phy'']]\<rparr>)"
  by (simp add: stub_defs model_defs path_defs)

lemma stub_call_refused:
  "compute_tree_call stub_env_strict_writer Map.empty stub_project stub_world =
     (Some (ValueError ''Must have at least one sequence''), stub_project,
      \<lparr>fsys = stub_fs\<lparr>nodes := (nodes stub_fs)([''proj'', ''compute_tree.phy''] \<mapsto> File [])\<rparr>,
       calls = [ToPhylip ''proj/compute_tree.phy'']\<rparr>)"
  by (simp add: stub_defs model_defs path_defs)

lemma stub_stages:
  "phylo_to_phylip stub_env (data stub_project)
     (os_path_join (project_dir stub_project) ''compute_tree.phy'') (fsys stub_world) =
     Inr (write_bytes stub_fs ''proj/compute_tree.phy'' ''phylip'')"
  "PhymlCommandline stub_env
     (tree_options (os_path_join (project_dir stub_project) ''compute_tree.phy'')
        (PyStr ''aa'') (PyStr ''-1'') (PyStr ''LG'') (PyStr ''e'') Map.empty) =
     Inr ''phyml -i proj/compute_tree.phy''"
  "subprocess_run stub_env (py_split ''phyml -i proj/compute_tree.phy'')
     (write_bytes stub_fs ''proj/compute_tree.phy'' ''phylip'') =
     Inr (1, write_bytes (write_bytes stub_fs ''proj/compute_tree.phy'' ''phylip'')
               ''proj/compute_tree.phy_phyml_tree.txt'' ''(A,B);'')"
  "\<not> os_path_exists
       (write_bytes (write_bytes stub_fs ''proj/compute_tree.phy'' ''phylip'')
          ''proj/compute_tree.phy_phyml_tree.txt'' ''(A,B);'')
       (os_path_join (project_dir stub_project) ''compute_tree.phy_phyml_tree'')"
  by (simp_all add: stub_defs path_defs)

lemma stub_stages_no_output:
  "phylo_to_phylip stub_env_no_output (data stub_project)
     (os_path_join (project_dir stub_project) ''compute_tree.phy'') (fsys stub_world) =
     Inr (write_bytes stub_fs ''proj/compute_tree.phy'' ''phylip'')"
  "PhymlCommandline stub_env_no_output
     (tree_options (os_path_join (project_dir stub_project) ''compute_tree.phy'')
        (PyStr ''aa'') (PyStr ''-1'') (PyStr ''LG'') (PyStr ''e'') Map.empty) =
     Inr ''phyml -i proj/compute_tree.phy''"
  "subprocess_run stub_env_no_output (py_split ''phyml -i proj/compute_tree.phy'')
     (write_bytes stub_fs ''proj/compute_tree.phy'' ''phylip'') =
     Inr (1, write_bytes stub_fs ''proj/compute_tree.phy'' ''phylip'')"
  "\<not> os_path_exists (write_bytes stub_fs ''proj/compute_tree.phy'' ''phylip'')
       (os_path_join (project_dir stub_project) ''compute_tree.phy_phyml_tree'')"
  "\<not> os_path_exists (write_bytes stub_fs ''proj/compute_tree.phy'' ''phylip'')
       (os_path_join (project_dir stub_project) ''compute_tree.phy_phyml_tree'' @ ''.txt'')"
  by (simp_all add: stub_defs path_defs)

subsection \<open>Re-identifying the leaves\<close>

text \<open>
  \<^bold>\<open>C1.\<close> Whenever \<open>compute_tree\<close> returns normally, the frame it assigned is what
  \<open>combine\<close> made of the old frame and the re-identified tree: the tree read from the output
  file, in which every row whose \<open>type\<close> is \<open>leaf\<close> has had its \<open>uid\<close> set to its \<open>id\<close>, every
  other row is as the reader returned it (so it keeps the identifier the tool gave it), and no
  column but \<open>uid\<close> has changed in any row.
\<close>

theorem compute_tree_leaf_uids:
  assumes "compute_tree env sequence_col datatype' bootstrap model frequencies kw self w
             = (None, self', w')"
  shows "\<exists>tree_data tree_data'.
     read_newick env (fsys w') (tree_outpath (fsys w') (project_dir self)) = Inr tree_data \<and>
     swap_leaf_uids tree_data = Inr tree_data' \<and>
     phylo_combine env (data self) tree_data' ''uid'' = Inr (data self') \<and>
     length (rows tree_data') = length (rows tree_data) \<and>
     (\<forall>i < length (rows tree_data).
        (cell (rows tree_data ! i) ''type'' = PyStr ''leaf'' \<longrightarrow>
           cell (rows tree_data' ! i) ''uid'' = cell (rows tree_data ! i) ''id'') \<and>
        (cell (rows tree_data ! i) ''type'' \<noteq> PyStr ''leaf'' \<and>
         ''uid'' \<in> set (columns tree_data) \<longrightarrow>
           rows tree_data' ! i = rows tree_data ! i) \<and>
        (\<forall>c. c \<noteq> ''uid'' \<longrightarrow> cell (rows tree_data' ! i) c = cell (rows tree_data ! i) c))"
proof -
  from assms obtain fs2 w3 where
    upd: "update_dataframe env (tree_outpath fs2 (project_dir self)) self w3 = (None, self', w')"
    and fs: "fsys w3 = fs2"
    by (auto simp: compute_tree_def Let_def split: sum.splits prod.splits)
  from update_dataframe_ok [OF upd] obtain tree_data tree_data' where
    rd: "read_newick env (fsys w3) (tree_outpath fs2 (project_dir self)) = Inr tree_data"
    and sw: "swap_leaf_uids tree_data = Inr tree_data'"
    and cb: "phylo_combine env (data self) tree_data' ''uid'' = Inr (data self')"
    and same: "fsys w' = fsys w3"
    by blast
  note rs = swap_leaf_uids_rows [OF sw]
  have len: "length (rows tree_data') = length (rows tree_data)"
    by (simp add: rs)
  have each: "\<forall>i < length (rows tree_data).
        (cell (rows tree_data ! i) ''type'' = PyStr ''leaf'' \<longrightarrow>
           cell (rows tree_data' ! i) ''uid'' = cell (rows tree_data ! i) ''id'') \<and>
        (cell (rows tree_data ! i) ''type'' \<noteq> PyStr ''leaf'' \<and>
         ''uid'' \<in> set (columns tree_data) \<longrightarrow>
           rows tree_data' ! i = rows tree_data ! i) \<and>
        (\<forall>c. c \<noteq> ''uid'' \<longrightarrow> cell (rows tree_data' ! i) c = cell (rows tree_data ! i) c)"
    by (simp add: rs cell_set_cell)
  from rd sw cb len each same fs show ?thesis
    by auto
qed

theorem compute_tree_leaf_uids_witness:
  "fst (compute_tree_call stub_env Map.empty stub_project stub_world) = None \<and>
   (\<exists>tree_data tree_data'.
      swap_leaf_uids tree_data = Inr tree_data' \<and>
      phylo_combine stub_env (data stub_project) tree_data' ''uid'' =
        Inr (data (fst (snd (compute_tree_call stub_env Map.empty stub_project stub_world)))) \<and>
      length (rows tree_data') = length (rows tree_data)) \<and>
   map (\<lambda>r. cell r ''uid'')
     (rows (data (fst (snd (compute_tree_call stub_env Map.empty stub_project stub_world))))) =
     [PyStr ''A'', PyStr ''B'', PyStr ''2'']"
proof -
  obtain e S W where r: "compute_tree_call stub_env Map.empty stub_project stub_world = (e, S, W)"
    by (cases "compute_tree_call stub_env Map.empty stub_project stub_world")
  have e: "e = None" using r by (simp add: stub_call_succeeds)
  have h: "compute_tree stub_env (PyStr ''sequence'') (PyStr ''aa'') (PyStr ''-1'') (PyStr ''LG'')
             (PyStr ''e'') Map.empty stub_project stub_world = (None, S, W)"
    using r e by (simp add: compute_tree_call_defaults)
  from compute_tree_leaf_uids [OF h] obtain tree_data tree_data' where
    "swap_leaf_uids tree_data = Inr tree_data'"
    "phylo_combine stub_env (data stub_project) tree_data' ''uid'' = Inr (data S)"
    "length (rows tree_data') = length (rows tree_data)"
    by blast
  moreover have "map (\<lambda>r. cell r ''uid'') (rows (data S)) = [PyStr ''A'', PyStr ''B'', PyStr ''2'']"
    using r by (auto simp: stub_call_succeeds stub_row_def cell_def)
  ultimately show ?thesis
    using r e by auto
qed

subsection \<open>Construction\<close>




subsection \<open>Saving and loading\<close>

text \<open>
  \<^bold>\<open>C3.\<close> If \<open>to_pickle\<close> returns normally, and pickle reads back what it wrote for this
  object, then \<open>load_pickle\<close> on the same file name returns the very project that was saved:
  same directory, same frame. Saving does not change the project.
\<close>

theorem pickle_round_trip:
  assumes "to_pickle env filename self w = (None, self', w')"
    and "\<And>b. pickle_dumps env (Project self) = Inr b \<Longrightarrow>
              pickle_loads env b = Inr (Project self)"
  shows "load_pickle env filename w' = (Inr (Project self), w') \<and> self' = self"
proof -
  from assms(1) obtain fs1 b where
    opened: "open_wb (fsys w) filename = Inr fs1"
    and dumped: "pickle_dumps env (Project self) = Inr b"
    and self': "self' = self"
    and w': "w' = w\<lparr>fsys := write_bytes fs1 filename b\<rparr>"
    by (auto simp: to_pickle_def split: sum.splits)
  from open_wb_resolves [OF opened] obtain loc where
    r0: "resolve (fsys w) filename = Inr loc" and free: "\<not> anchored loc"
    and nd: "node_at (fsys w) loc \<noteq> Some Dir"
    and fs1: "fs1 = (fsys w)\<lparr>nodes := (nodes (fsys w))(loc \<mapsto> File [])\<rparr>"
    by blast
  have r1: "resolve fs1 filename = Inr loc"
    unfolding fs1 by (rule resolve_after_file [OF r0 free nd])
  have n1: "node_at fs1 loc \<noteq> Some Dir"
    using free by (simp add: fs1 node_at_def)
  let ?fs2 = "fs1\<lparr>nodes := (nodes fs1)(loc \<mapsto> File b)\<rparr>"
  have written: "write_bytes fs1 filename b = ?fs2"
    by (simp add: write_bytes_def r1)
  have r2: "resolve ?fs2 filename = Inr loc"
    by (rule resolve_after_file [OF r1 free n1])
  have "node_at ?fs2 loc = Some (File b)"
    using free by (simp add: node_at_def)
  with r2 have "open_rb ?fs2 filename = Inr b"
    by (simp add: open_rb_def)
  with written w' assms(2) [OF dumped] have "load_pickle env filename w' = (Inr (Project self), w')"
    by (simp add: load_pickle_def)
  with self' show ?thesis
    by simp
qed

theorem pickle_round_trip_witness:
  "fst (to_pickle stub_env ''snap.pkl'' stub_project stub_world) = None \<and>
   fst (load_pickle stub_env ''snap.pkl''
          (snd (snd (to_pickle stub_env ''snap.pkl'' stub_project stub_world)))) =
     Inr (Project stub_project)"
proof -
  obtain e S W where r: "to_pickle stub_env ''snap.pkl'' stub_project stub_world = (e, S, W)"
    by (cases "to_pickle stub_env ''snap.pkl'' stub_project stub_world")
  have e: "e = None"
    using r by (auto simp: to_pickle_def stub_defs path_defs)
  have law: "\<And>b. pickle_dumps stub_env (Project stub_project) = Inr b \<Longrightarrow>
                 pickle_loads stub_env b = Inr (Project stub_project)"
    by (simp add: stub_env_def)
  from r e have "to_pickle stub_env ''snap.pkl'' stub_project stub_world = (None, S, W)"
    by simp
  from pickle_round_trip [OF this law] r e show ?thesis
    by simp
qed

subsection \<open>The output file\<close>

text \<open>
  \<^bold>\<open>C4.\<close> Let the PHYLIP writer, the command-line builder and the PhyML process have returned,
  and let \<open>compute_tree.phy_phyml_tree\<close> not exist in the project directory afterwards. If the
  same name with \<open>.txt\<close> appended is a file, and the reader, the re-identification and
  \<open>combine\<close> accept its contents, \<open>compute_tree\<close> returns normally with the frame built from
  that file. If the name with \<open>.txt\<close> does not exist either, \<open>compute_tree\<close> raises the
  reader's \<open>FileNotFoundError\<close> for it and leaves the project as it was.
\<close>

theorem outpath_fallback:
  assumes "phylo_to_phylip env (data self) (os_path_join (project_dir self) ''compute_tree.phy'')
             (fsys w) = Inr fs1"
    and "PhymlCommandline env
           (tree_options (os_path_join (project_dir self) ''compute_tree.phy'')
              datatype' bootstrap model frequencies kw) = Inr cml"
    and "subprocess_run env (py_split cml) fs1 = Inr (rc, fs2)"
    and absent: "\<not> os_path_exists fs2 (os_path_join (project_dir self) ''compute_tree.phy_phyml_tree'')"
  shows "(\<forall>content t t' d.
            files fs2 (os_path_join (project_dir self) ''compute_tree.phy_phyml_tree'' @ ''.txt'')
              = Some content \<and>
            newick_parse env content = Inr t \<and> swap_leaf_uids t = Inr t' \<and>
            phylo_combine env (data self) t' ''uid'' = Inr d \<longrightarrow>
            fst (compute_tree env sequence_col datatype' bootstrap model frequencies kw self w)
              = None \<and>
            fst (snd (compute_tree env sequence_col datatype' bootstrap model frequencies kw self w))
              = self\<lparr>data := d\<rparr>) \<and>
         (\<not> os_path_exists fs2
              (os_path_join (project_dir self) ''compute_tree.phy_phyml_tree'' @ ''.txt'') \<longrightarrow>
            fst (compute_tree env sequence_col datatype' bootstrap model frequencies kw self w)
              = Some (FileNotFoundError
                   (os_path_join (project_dir self) ''compute_tree.phy_phyml_tree'' @ ''.txt'')) \<and>
            fst (snd (compute_tree env sequence_col datatype' bootstrap model frequencies kw self w))
              = self)"
proof -
  let ?w3 = "(w\<lparr>calls := calls w @ [ToPhylip (os_path_join (project_dir self) ''compute_tree.phy''),
                                Commandline, SubprocessRun (py_split cml)],
              fsys := fs2\<rparr>)"
  let ?txt = "os_path_join (project_dir self) ''compute_tree.phy_phyml_tree'' @ ''.txt''"
  have out: "tree_outpath fs2 (project_dir self) = ?txt"
    using absent by (simp add: tree_outpath_def Let_def)
  have run: "compute_tree env sequence_col datatype' bootstrap model frequencies kw self w =
             update_dataframe env ?txt self ?w3"
    using compute_tree_after_run [OF assms(1-3)] out by simp
  show ?thesis
  proof (intro conjI allI impI)
    fix content t t' d
    assume h: "files fs2 ?txt = Some content \<and> newick_parse env content = Inr t \<and>
               swap_leaf_uids t = Inr t' \<and> phylo_combine env (data self) t' ''uid'' = Inr d"
    then have "update_dataframe env ?txt self ?w3 =
               (None, self\<lparr>data := d\<rparr>, called Combine (called (ReadNewick ?txt) ?w3))"
      by (intro update_dataframe_found [where content = content and t = t and t' = t']) simp_all
    with run show "fst (compute_tree env sequence_col datatype' bootstrap model frequencies kw self w) = None"
      and "fst (snd (compute_tree env sequence_col datatype' bootstrap model frequencies kw self w)) = self\<lparr>data := d\<rparr>"
      by simp_all
  next
    assume "\<not> os_path_exists fs2 ?txt"
    then have "update_dataframe env ?txt self ?w3 =
               (Some (FileNotFoundError ?txt), self, called (ReadNewick ?txt) ?w3)"
      by (intro update_dataframe_missing) simp
    with run show "fst (compute_tree env sequence_col datatype' bootstrap model frequencies kw self w)
              = Some (FileNotFoundError ?txt)"
      and "fst (snd (compute_tree env sequence_col datatype' bootstrap model frequencies kw self w)) = self"
      by simp_all
  qed
qed

theorem outpath_fallback_witness:
  "\<not> os_path_exists
       (write_bytes (write_bytes stub_fs ''proj/compute_tree.phy'' ''phylip'')
          ''proj/compute_tree.phy_phyml_tree.txt'' ''(A,B);'')
       ''proj/compute_tree.phy_phyml_tree'' \<and>
   fst (compute_tree stub_env (PyStr ''sequence'') (PyStr ''aa'') (PyStr ''-1'') (PyStr ''LG'')
          (PyStr ''e'') Map.empty stub_project stub_world) = None \<and>
   map (\<lambda>r. cell r ''id'')
     (rows (data (fst (snd (compute_tree stub_env (PyStr ''sequence'') (PyStr ''aa'')
          (PyStr ''-1'') (PyStr ''LG'') (PyStr ''e'') Map.empty stub_project stub_world))))) =
     [PyStr ''A'', PyStr ''B'', PyStr ''n''] \<and>
   \<not> os_path_exists (write_bytes stub_fs ''proj/compute_tree.phy'' ''phylip'')
       ''proj/compute_tree.phy_phyml_tree.txt'' \<and>
   fst (compute_tree stub_env_no_output (PyStr ''sequence'') (PyStr ''aa'') (PyStr ''-1'')
          (PyStr ''LG'') (PyStr ''e'') Map.empty stub_project stub_world) =
     Some (FileNotFoundError ''proj/compute_tree.phy_phyml_tree.txt'')"
proof -
  note found = outpath_fallback [OF stub_stages, where sequence_col = "PyStr ''sequence''",
      THEN conjunct1, rule_format,
      where content = "''(A,B);''" and t = stub_tree
        and t' = "\<lparr>columns = [''uid'', ''id'', ''type''],
                  rows = [stub_row ''A'' ''A'' ''leaf'', stub_row ''B'' ''B'' ''leaf'',
                          stub_row ''2'' ''n'' ''node'']\<rparr>"
        and d = "\<lparr>columns = project_columns,
                  rows = [stub_row ''A'' ''A'' ''leaf'', stub_row ''B'' ''B'' ''leaf'',
                          stub_row ''2'' ''n'' ''node'']\<rparr>"]
  note missing = outpath_fallback [OF stub_stages_no_output(1-4),
      where sequence_col = "PyStr ''sequence''", THEN conjunct2, rule_format,
      OF stub_stages_no_output(5)]
  have "fst (compute_tree stub_env (PyStr ''sequence'') (PyStr ''aa'') (PyStr ''-1'') (PyStr ''LG'')
          (PyStr ''e'') Map.empty stub_project stub_world) = None \<and>
        fst (snd (compute_tree stub_env (PyStr ''sequence'') (PyStr ''aa'') (PyStr ''-1'')
          (PyStr ''LG'') (PyStr ''e'') Map.empty stub_project stub_world)) =
        stub_project\<lparr>data := \<lparr>columns = project_columns,
                  rows = [stub_row ''A'' ''A'' ''leaf'', stub_row ''B'' ''B'' ''leaf'',
                          stub_row ''2'' ''n'' ''node'']\<rparr>\<rparr>"
    by (rule found)
       (simp add: stub_defs path_defs swap_leaf_uids_def cell_def)
  with missing stub_stages(4) stub_stages_no_output(5) show ?thesis
    by (simp add: stub_project_def os_path_join_def stub_row_def cell_def)
qed

subsection \<open>A frame without rows\<close>

text \<open>
  \<^bold>\<open>C5\<close> (as amended). \<open>compute_tree\<close> has no check of its own for a frame without rows: it
  hands the frame to the PHYLIP writer first. Where the writer does with it what it does with
  a frame without rows (open the file for writing, then raise \<open>ValueError\<close>), the call is
  rejected with that exception, or with the one \<open>open\<close> raised; the project is as it was;
  the writer is the only third-party routine that was called, so no command line was built
  and no process started. When the file could be opened, \<open>compute_tree.phy\<close> is there
  afterwards, empty.
\<close>

theorem empty_table_refused_by_writer:
  assumes "rows (data self) = []"
    and "phylo_to_phylip env (data self) (os_path_join (project_dir self) ''compute_tree.phy'')
           (fsys w) =
         write_nothing (fsys w) (os_path_join (project_dir self) ''compute_tree.phy'')"
  shows "(\<forall>fs'. open_wb (fsys w) (os_path_join (project_dir self) ''compute_tree.phy'') = Inr fs' \<longrightarrow>
            compute_tree env sequence_col datatype' bootstrap model frequencies kw self w =
              (Some (ValueError ''Must have at least one sequence''), self,
               w\<lparr>calls := calls w @ [ToPhylip (os_path_join (project_dir self) ''compute_tree.phy'')],
                 fsys := fs'\<rparr>) \<and>
            files fs' (os_path_join (project_dir self) ''compute_tree.phy'') = Some []) \<and>
         (\<forall>e. open_wb (fsys w) (os_path_join (project_dir self) ''compute_tree.phy'') = Inl e \<longrightarrow>
            compute_tree env sequence_col datatype' bootstrap model frequencies kw self w =
              (Some e, self,
               w\<lparr>calls := calls w @ [ToPhylip (os_path_join (project_dir self) ''compute_tree.phy'')]\<rparr>))"
proof (intro conjI allI impI)
  fix fs'
  assume o: "open_wb (fsys w) (os_path_join (project_dir self) ''compute_tree.phy'') = Inr fs'"
  with assms(2) show "compute_tree env sequence_col datatype' bootstrap model frequencies kw self w =
              (Some (ValueError ''Must have at least one sequence''), self,
               w\<lparr>calls := calls w @ [ToPhylip (os_path_join (project_dir self) ''compute_tree.phy'')],
                 fsys := fs'\<rparr>)"
    by (simp add: compute_tree_def write_nothing_def called_def Let_def)
  from o show "files fs' (os_path_join (project_dir self) ''compute_tree.phy'') = Some []"
    by (rule open_wb_files)
next
  fix e
  assume "open_wb (fsys w) (os_path_join (project_dir self) ''compute_tree.phy'') = Inl e"
  with assms(2) show "compute_tree env sequence_col datatype' bootstrap model frequencies kw self w =
              (Some e, self,
               w\<lparr>calls := calls w @ [ToPhylip (os_path_join (project_dir self) ''compute_tree.phy'')]\<rparr>)"
    by (simp add: compute_tree_def write_nothing_def called_def Let_def)
qed

theorem empty_table_refused_by_writer_witness:
  "rows (data stub_project) = [] \<and>
   phylo_to_phylip stub_env_strict_writer (data stub_project) ''proj/compute_tree.phy''
     (fsys stub_world) = write_nothing (fsys stub_world) ''proj/compute_tree.phy'' \<and>
   fst (compute_tree stub_env_strict_writer (PyStr ''sequence'') (PyStr ''aa'') (PyStr ''-1'')
          (PyStr ''LG'') (PyStr ''e'') Map.empty stub_project stub_world) =
     Some (ValueError ''Must have at least one sequence'') \<and>
   calls (snd (snd (compute_tree stub_env_strict_writer (PyStr ''sequence'') (PyStr ''aa'')
          (PyStr ''-1'') (PyStr ''LG'') (PyStr ''e'') Map.empty stub_project stub_world))) =
     [ToPhylip ''proj/compute_tree.phy''] \<and>
   rows (data (stub_project\<lparr>project_dir := ''sealed''\<rparr>)) = [] \<and>
   phylo_to_phylip stub_env_strict_writer (data (stub_project\<lparr>project_dir := ''sealed''\<rparr>))
     ''sealed/compute_tree.phy'' (fsys stub_world) =
     write_nothing (fsys stub_world) ''sealed/compute_tree.phy'' \<and>
   compute_tree stub_env_strict_writer (PyStr ''sequence'') (PyStr ''aa'') (PyStr ''-1'')
          (PyStr ''LG'') (PyStr ''e'') Map.empty (stub_project\<lparr>project_dir := ''sealed''\<rparr>)
          stub_world =
     (Some (PermissionError ''sealed/compute_tree.phy''), stub_project\<lparr>project_dir := ''sealed''\<rparr>,
      stub_world\<lparr>calls := [ToPhylip ''sealed/compute_tree.phy'']\<rparr>)"
proof -
  let ?s = "stub_project\<lparr>project_dir := ''sealed''\<rparr>"
  have empty: "rows (data stub_project) = []"
    by (simp add: stub_project_def)
  have p: "os_path_join (project_dir stub_project) ''compute_tree.phy'' = ''proj/compute_tree.phy''"
    by (simp add: stub_project_def os_path_join_def)
  have writer: "phylo_to_phylip stub_env_strict_writer (data stub_project)
       (os_path_join (project_dir stub_project) ''compute_tree.phy'') (fsys stub_world) =
     write_nothing (fsys stub_world) (os_path_join (project_dir stub_project) ''compute_tree.phy'')"
    by (simp add: stub_env_strict_writer_def stub_env_def stub_project_def)
  have opened: "open_wb (fsys stub_world) (os_path_join (project_dir stub_project) ''compute_tree.phy'') =
     Inr (stub_fs\<lparr>nodes := (nodes stub_fs)([''proj'', ''compute_tree.phy''] \<mapsto> File [])\<rparr>)"
    by (simp add: stub_world_def stub_fs_def stub_project_def path_defs)
  note refused = empty_table_refused_by_writer [OF empty writer,
      where sequence_col = "PyStr ''sequence''" and datatype' = "PyStr ''aa''"
        and bootstrap = "PyStr ''-1''" and model = "PyStr ''LG''" and frequencies = "PyStr ''e''"
        and kw = Map.empty, THEN conjunct1, rule_format, OF opened, THEN conjunct1]
  from empty writer refused have opens:
    "rows (data stub_project) = [] \<and>
     phylo_to_phylip stub_env_strict_writer (data stub_project) ''proj/compute_tree.phy''
       (fsys stub_world) = write_nothing (fsys stub_world) ''proj/compute_tree.phy'' \<and>
     fst (compute_tree stub_env_strict_writer (PyStr ''sequence'') (PyStr ''aa'') (PyStr ''-1'')
            (PyStr ''LG'') (PyStr ''e'') Map.empty stub_project stub_world) =
       Some (ValueError ''Must have at least one sequence'') \<and>
     calls (snd (snd (compute_tree stub_env_strict_writer (PyStr ''sequence'') (PyStr ''aa'')
            (PyStr ''-1'') (PyStr ''LG'') (PyStr ''e'') Map.empty stub_project stub_world))) =
       [ToPhylip ''proj/compute_tree.phy'']"
    by (simp add: p stub_world_def)
  have empty': "rows (data ?s) = []"
    by (simp add: stub_project_def)
  have writer': "phylo_to_phylip stub_env_strict_writer (data ?s)
       (os_path_join (project_dir ?s) ''compute_tree.phy'') (fsys stub_world) =
     write_nothing (fsys stub_world) (os_path_join (project_dir ?s) ''compute_tree.phy'')"
    by (simp add: stub_env_strict_writer_def stub_env_def stub_project_def)
  have closed: "open_wb (fsys stub_world) (os_path_join (project_dir ?s) ''compute_tree.phy'') =
     Inl (PermissionError ''sealed/compute_tree.phy'')"
    by (simp add: stub_world_def stub_fs_def path_defs)
  note refused' = empty_table_refused_by_writer [OF empty' writer',
      where sequence_col = "PyStr ''sequence''" and datatype' = "PyStr ''aa''"
        and bootstrap = "PyStr ''-1''" and model = "PyStr ''LG''" and frequencies = "PyStr ''e''"
        and kw = Map.empty, THEN conjunct2, rule_format, OF closed]
  from empty' writer' refused' have closes:
    "rows (data ?s) = [] \<and>
     phylo_to_phylip stub_env_strict_writer (data ?s) ''sealed/compute_tree.phy''
       (fsys stub_world) = write_nothing (fsys stub_world) ''sealed/compute_tree.phy'' \<and>
     compute_tree stub_env_strict_writer (PyStr ''sequence'') (PyStr ''aa'') (PyStr ''-1'')
          (PyStr ''LG'') (PyStr ''e'') Map.empty ?s stub_world =
       (Some (PermissionError ''sealed/compute_tree.phy''), ?s,
        stub_world\<lparr>calls := [ToPhylip ''sealed/compute_tree.phy'']\<rparr>)"
    by (simp add: os_path_join_def stub_world_def)
  from opens closes show ?thesis
    by simp
qed

text \<open>
  As stated (a call on an empty frame is rejected and no input file is written for it), C5
  fails: the call on the project just constructed is rejected before any process is started,
  but it leaves an empty \<open>compute_tree.phy\<close> that was not there before.
\<close>

theorem empty_table_counterexample:
  "rows (data stub_project) = [] \<and>
   \<not> os_path_exists (fsys stub_world) ''proj/compute_tree.phy'' \<and>
   fst (compute_tree_call stub_env_strict_writer Map.empty stub_project stub_world) =
     Some (ValueError ''Must have at least one sequence'') \<and>
   calls (snd (snd (compute_tree_call stub_env_strict_writer Map.empty stub_project stub_world))) =
     [ToPhylip ''proj/compute_tree.phy''] \<and>
   os_path_exists
     (fsys (snd (snd (compute_tree_call stub_env_strict_writer Map.empty stub_project stub_world))))
     ''proj/compute_tree.phy'' \<and>
   files
     (fsys (snd (snd (compute_tree_call stub_env_strict_writer Map.empty stub_project stub_world))))
     ''proj/compute_tree.phy'' = Some []"
proof -
  have "rows (data stub_project) = []"
    by (simp add: stub_project_def)
  moreover have "\<not> os_path_exists (fsys stub_world) ''proj/compute_tree.phy''"
    by (simp add: stub_world_def stub_fs_def path_defs)
  ultimately show ?thesis
    by (simp add: stub_call_refused) (simp add: stub_fs_def path_defs)
qed

subsection \<open>Dispatch by schema\<close>

text \<open>
  \<^bold>\<open>C6.\<close> \<open>read_data\<close> looks the name \<open>read_<schema>\<close> up on the frame's \<open>phylo\<close> accessor
  and, when that fails, on the frame itself. The handler found is called with the path and the
  keyword arguments; when it returns, its result replaces the frame, and when it raises, the
  exception is passed on. When neither lookup finds the name, \<open>read_data\<close> raises the
  \<open>AttributeError\<close> of the second lookup and leaves the project as it was.
\<close>

theorem read_data_dispatch:
  "(\<forall>m. phylo_getattr env (data self) (''read_'' @ schema) = Some m \<longrightarrow>
      read_data env p schema kw self w =
        (case m p kw (fsys w) of
           Inl e \<Rightarrow> (Some e, self, called (ReadHandler (''read_'' @ schema) p) w)
         | Inr t \<Rightarrow> (None, self\<lparr>data := t\<rparr>, called (ReadHandler (''read_'' @ schema) p) w))) \<and>
   (\<forall>m. phylo_getattr env (data self) (''read_'' @ schema) = None \<and>
        dataframe_getattr env (data self) (''read_'' @ schema) = Some m \<longrightarrow>
      read_data env p schema kw self w =
        (case m p kw (fsys w) of
           Inl e \<Rightarrow> (Some e, self, called (ReadHandler (''read_'' @ schema) p) w)
         | Inr t \<Rightarrow> (None, self\<lparr>data := t\<rparr>, called (ReadHandler (''read_'' @ schema) p) w))) \<and>
   (phylo_getattr env (data self) (''read_'' @ schema) = None \<and>
    dataframe_getattr env (data self) (''read_'' @ schema) = None \<longrightarrow>
      read_data env p schema kw self w = (Some (AttributeError (''read_'' @ schema)), self, w))"
  by (auto simp: read_data_def Let_def split: sum.splits)

theorem read_data_dispatch_witness:
  "read_data stub_env ''seqs.fasta'' ''fasta'' Map.empty stub_project stub_world =
     (None, stub_project\<lparr>data := stub_tree\<rparr>,
      called (ReadHandler ''read_fasta'' ''seqs.fasta'') stub_world) \<and>
   read_data stub_env ''seqs.fasta'' ''table'' Map.empty stub_project stub_world =
     (None, stub_project\<lparr>data := stub_tree\<rparr>,
      called (ReadHandler ''read_table'' ''seqs.fasta'') stub_world) \<and>
   read_data stub_env ''seqs.fasta'' ''csv'' Map.empty stub_project stub_world =
     (Some (AttributeError ''read_csv''), stub_project, stub_world)"
  using
    read_data_dispatch [where env = stub_env and schema = "''fasta''" and p = "''seqs.fasta''"
      and kw = Map.empty and self = stub_project and w = stub_world]
    read_data_dispatch [where env = stub_env and schema = "''table''" and p = "''seqs.fasta''"
      and kw = Map.empty and self = stub_project and w = stub_world]
    read_data_dispatch [where env = stub_env and schema = "''csv''" and p = "''seqs.fasta''"
      and kw = Map.empty and self = stub_project and w = stub_world]
  by (simp add: stub_env_def stub_fasta_def stub_world_def stub_fs_def path_defs)

subsection \<open>The options of the tool\<close>

text \<open>
  \<^bold>\<open>C7.\<close> For a call \<open>compute_tree(**given)\<close> (no keyword \<open>self\<close>), once the PHYLIP writer
  has returned, the command-line builder is called with the dictionary
  \<open>call_options given self\<close>: what it raises for this dictionary the call raises, before any
  process is started; the command it returns for this dictionary is the one that is run, cut
  at white space; and what it makes of any other dictionary makes no difference. In this
  dictionary every keyword given (but \<open>sequence_col\<close>, which is not passed on) has the given
  value, \<open>input\<close> included; every keyword not given has its default: \<open>input\<close> the path of
  \<open>compute_tree.phy\<close> in the project directory, \<open>datatype\<close> \<open>'aa'\<close>, \<open>bootstrap\<close> \<open>'-1'\<close>,
  \<open>model\<close> \<open>'LG'\<close>, \<open>frequencies\<close> \<open>'e'\<close> (PhyML's code for empirical frequencies), and nothing
  else.
\<close>

theorem compute_tree_options:
  assumes "given ''self'' = None"
  shows
  "(\<forall>fs1 e. phylo_to_phylip env (data self)
               (os_path_join (project_dir self) ''compute_tree.phy'') (fsys w) = Inr fs1 \<and>
             PhymlCommandline env (call_options given self) = Inl e \<longrightarrow>
      compute_tree_call env given self w =
        (Some e, self,
         w\<lparr>calls := calls w @ [ToPhylip (os_path_join (project_dir self) ''compute_tree.phy''),
                               Commandline],
           fsys := fs1\<rparr>)) \<and>
   (\<forall>fs1 cml. phylo_to_phylip env (data self)
               (os_path_join (project_dir self) ''compute_tree.phy'') (fsys w) = Inr fs1 \<and>
             PhymlCommandline env (call_options given self) = Inr cml \<longrightarrow>
      SubprocessRun (py_split cml)
        \<in> set (calls (snd (snd (compute_tree_call env given self w))))) \<and>
   (\<forall>f. f (call_options given self) = PhymlCommandline env (call_options given self) \<longrightarrow>
      compute_tree_call (env\<lparr>PhymlCommandline := f\<rparr>) given self w =
      compute_tree_call env given self w) \<and>
   (\<forall>k v. given k = Some v \<and> k \<noteq> ''sequence_col'' \<longrightarrow> call_options given self k = Some v) \<and>
   (\<forall>k. given k = None \<longrightarrow>
      call_options given self k =
        [''input'' \<mapsto> PyStr (os_path_join (project_dir self) ''compute_tree.phy''),
         ''datatype'' \<mapsto> PyStr ''aa'', ''bootstrap'' \<mapsto> PyStr ''-1'', ''model'' \<mapsto> PyStr ''LG'',
         ''frequencies'' \<mapsto> PyStr ''e''] k)"
proof (intro conjI allI impI)
  fix fs1 e
  assume "phylo_to_phylip env (data self)
            (os_path_join (project_dir self) ''compute_tree.phy'') (fsys w) = Inr fs1 \<and>
          PhymlCommandline env (call_options given self) = Inl e"
  with assms show "compute_tree_call env given self w =
        (Some e, self,
         w\<lparr>calls := calls w @ [ToPhylip (os_path_join (project_dir self) ''compute_tree.phy''),
                               Commandline],
           fsys := fs1\<rparr>)"
    by (simp add: compute_tree_call_def compute_tree_def call_options_def called_def Let_def)
next
  fix fs1 cml
  assume h: "phylo_to_phylip env (data self)
            (os_path_join (project_dir self) ''compute_tree.phy'') (fsys w) = Inr fs1 \<and>
          PhymlCommandline env (call_options given self) = Inr cml"
  let ?run = "compute_tree env (given_or given ''sequence_col'' (PyStr ''sequence''))
        (given_or given ''datatype'' (PyStr ''aa''))
        (given_or given ''bootstrap'' (PyStr ''-1''))
        (given_or given ''model'' (PyStr ''LG''))
        (given_or given ''frequencies'' (PyStr ''e''))
        (rest_of given tree_parameters) self w"
  have call: "compute_tree_call env given self w = ?run"
    using assms by (simp add: compute_tree_call_def)
  have "SubprocessRun (py_split cml) \<in> set (calls (snd (snd ?run)))"
  proof (cases "subprocess_run env (py_split cml) fs1")
    case (Inl r)
    obtain e fs' where "r = (e, fs')" by (cases r)
    with Inl h show ?thesis
      by (simp add: compute_tree_def call_options_def called_def Let_def)
  next
    case (Inr r)
    obtain rc fs2 where r: "r = (rc, fs2)" by (cases r)
    let ?w3 = "w\<lparr>calls := calls w @ [ToPhylip (os_path_join (project_dir self) ''compute_tree.phy''),
                                      Commandline, SubprocessRun (py_split cml)],
                  fsys := fs2\<rparr>"
    have run: "?run = update_dataframe env (tree_outpath fs2 (project_dir self)) self ?w3"
      using h Inr r by (intro compute_tree_after_run) (simp_all add: call_options_def)
    show ?thesis
      using update_dataframe_calls [of env "tree_outpath fs2 (project_dir self)" self ?w3]
      unfolding run by auto
  qed
  with call show "SubprocessRun (py_split cml)
        \<in> set (calls (snd (snd (compute_tree_call env given self w))))"
    by simp
next
  fix f
  assume "f (call_options given self) = PhymlCommandline env (call_options given self)"
  then have "compute_tree (env\<lparr>PhymlCommandline := f\<rparr>)
        (given_or given ''sequence_col'' (PyStr ''sequence''))
        (given_or given ''datatype'' (PyStr ''aa''))
        (given_or given ''bootstrap'' (PyStr ''-1''))
        (given_or given ''model'' (PyStr ''LG''))
        (given_or given ''frequencies'' (PyStr ''e''))
        (rest_of given tree_parameters) self w =
      compute_tree env
        (given_or given ''sequence_col'' (PyStr ''sequence''))
        (given_or given ''datatype'' (PyStr ''aa''))
        (given_or given ''bootstrap'' (PyStr ''-1''))
        (given_or given ''model'' (PyStr ''LG''))
        (given_or given ''frequencies'' (PyStr ''e''))
        (rest_of given tree_parameters) self w"
    unfolding call_options_def by (rule compute_tree_Commandline)
  then show "compute_tree_call (env\<lparr>PhymlCommandline := f\<rparr>) given self w =
             compute_tree_call env given self w"
    by (simp add: compute_tree_call_def)
next
  fix k v
  assume "given k = Some v \<and> k \<noteq> ''sequence_col''"
  then show "call_options given self k = Some v"
    by (simp add: call_options_given)
next
  fix k
  assume "given k = None"
  then show "call_options given self k =
        [''input'' \<mapsto> PyStr (os_path_join (project_dir self) ''compute_tree.phy''),
         ''datatype'' \<mapsto> PyStr ''aa'', ''bootstrap'' \<mapsto> PyStr ''-1'', ''model'' \<mapsto> PyStr ''LG'',
         ''frequencies'' \<mapsto> PyStr ''e''] k"
    by (rule call_options_default)
qed

theorem compute_tree_options_witness:
  "SubprocessRun [''phyml'', ''-i'', ''proj/compute_tree.phy'', ''-d'', ''aa'', ''-b'', ''-1'',
                  ''-m'', ''WAG'', ''-f'', ''e'']
     \<in> set (calls (snd (snd (compute_tree_call stub_env_spelling [''model'' \<mapsto> PyStr ''WAG'']
                               stub_loaded stub_world)))) \<and>
   SubprocessRun [''phyml'', ''-i'', ''other.phy'', ''-d'', ''aa'', ''-b'', ''-1'',
                  ''-m'', ''LG'', ''-f'', ''e'']
     \<in> set (calls (snd (snd (compute_tree_call stub_env_spelling [''input'' \<mapsto> PyStr ''other.phy'']
                               stub_loaded stub_world)))) \<and>
   fst (compute_tree_call stub_env_spelling [''model'' \<mapsto> PyInt 0] stub_loaded stub_world) =
     Some (ValueError ''option'') \<and>
   call_options [''model'' \<mapsto> PyStr ''WAG''] stub_loaded ''model'' = Some (PyStr ''WAG'') \<and>
   call_options [''model'' \<mapsto> PyStr ''WAG''] stub_loaded ''bootstrap'' = Some (PyStr ''-1'')"
proof -
  let ?fs1 = "write_bytes stub_fs ''proj/compute_tree.phy'' ''phylip''"
  have written: "phylo_to_phylip stub_env_spelling (data stub_loaded)
      (os_path_join (project_dir stub_loaded) ''compute_tree.phy'') (fsys stub_world) = Inr ?fs1"
    by (simp add: stub_defs os_path_join_def)
  have wag: "PhymlCommandline stub_env_spelling (call_options [''model'' \<mapsto> PyStr ''WAG''] stub_loaded) =
      Inr ''phyml -i proj/compute_tree.phy -d aa -b -1 -m WAG -f e''"
    by (simp add: stub_defs options_defs os_path_join_def)
  have other: "PhymlCommandline stub_env_spelling
      (call_options [''input'' \<mapsto> PyStr ''other.phy''] stub_loaded) =
      Inr ''phyml -i other.phy -d aa -b -1 -m LG -f e''"
    by (simp add: stub_defs options_defs os_path_join_def)
  have bad: "PhymlCommandline stub_env_spelling (call_options [''model'' \<mapsto> PyInt 0] stub_loaded) =
      Inl (ValueError ''option'')"
    by (simp add: stub_defs options_defs os_path_join_def)
  note t1 = compute_tree_options [where given = "[''model'' \<mapsto> PyStr ''WAG'']"
      and env = stub_env_spelling and self = stub_loaded and w = stub_world]
  note t2 = compute_tree_options [where given = "[''input'' \<mapsto> PyStr ''other.phy'']"
      and env = stub_env_spelling and self = stub_loaded and w = stub_world]
  note t3 = compute_tree_options [where given = "[''model'' \<mapsto> PyInt 0]"
      and env = stub_env_spelling and self = stub_loaded and w = stub_world]
  have a: "SubprocessRun (py_split ''phyml -i proj/compute_tree.phy -d aa -b -1 -m WAG -f e'')
     \<in> set (calls (snd (snd (compute_tree_call stub_env_spelling [''model'' \<mapsto> PyStr ''WAG'']
                               stub_loaded stub_world))))"
    using written wag by (intro t1 [THEN conjunct2, THEN conjunct1, rule_format]) simp_all
  have b: "SubprocessRun (py_split ''phyml -i other.phy -d aa -b -1 -m LG -f e'')
     \<in> set (calls (snd (snd (compute_tree_call stub_env_spelling [''input'' \<mapsto> PyStr ''other.phy'']
                               stub_loaded stub_world))))"
    using written other by (intro t2 [THEN conjunct2, THEN conjunct1, rule_format]) simp_all
  have c: "fst (compute_tree_call stub_env_spelling [''model'' \<mapsto> PyInt 0] stub_loaded stub_world) =
     Some (ValueError ''option'')"
    using t3 [THEN conjunct1, rule_format, of ?fs1 "ValueError ''option''"] written bad by simp
  have d: "call_options [''model'' \<mapsto> PyStr ''WAG''] stub_loaded ''model'' = Some (PyStr ''WAG'')"
    by (intro t1 [THEN conjunct2, THEN conjunct2, THEN conjunct2, THEN conjunct1, rule_format]) simp_all
  have e: "call_options [''model'' \<mapsto> PyStr ''WAG''] stub_loaded ''bootstrap'' = Some (PyStr ''-1'')"
    using t1 [THEN conjunct2, THEN conjunct2, THEN conjunct2, THEN conjunct2, rule_format,
        of "''bootstrap''"] by simp
  from a b c d e show ?thesis
    by (simp add: py_split_def is_space_def)
qed

subsection \<open>The exit code\<close>

text \<open>
  \<^bold>\<open>C8.\<close> Once \<open>subprocess.run\<close> has returned, whatever the exit code, \<open>compute_tree\<close>
  goes on with locating and reading the output file: its result is that of lines 115 to 131
  on the file system the process left, the exit code appears nowhere in it, and the reader
  is called on the path those lines compute.
\<close>

theorem exit_code_not_inspected:
  assumes "phylo_to_phylip env (data self) (os_path_join (project_dir self) ''compute_tree.phy'')
             (fsys w) = Inr fs1"
    and "PhymlCommandline env
           (tree_options (os_path_join (project_dir self) ''compute_tree.phy'')
              datatype' bootstrap model frequencies kw) = Inr cml"
    and "subprocess_run env (py_split cml) fs1 = Inr (rc, fs2)"
  shows "compute_tree env sequence_col datatype' bootstrap model frequencies kw self w =
           update_dataframe env (tree_outpath fs2 (project_dir self)) self
             (w\<lparr>calls := calls w @ [ToPhylip (os_path_join (project_dir self) ''compute_tree.phy''),
                                Commandline, SubprocessRun (py_split cml)],
              fsys := fs2\<rparr>) \<and>
         ReadNewick (tree_outpath fs2 (project_dir self))
           \<in> set (calls (snd (snd (compute_tree env sequence_col datatype' bootstrap model
                                      frequencies kw self w))))"
proof -
  let ?w3 = "(w\<lparr>calls := calls w @ [ToPhylip (os_path_join (project_dir self) ''compute_tree.phy''),
                                Commandline, SubprocessRun (py_split cml)],
              fsys := fs2\<rparr>)"
  let ?out = "tree_outpath fs2 (project_dir self)"
  have run: "compute_tree env sequence_col datatype' bootstrap model frequencies kw self w =
             update_dataframe env ?out self ?w3"
    by (rule compute_tree_after_run [OF assms])
  have "ReadNewick ?out \<in> set (calls (snd (snd (update_dataframe env ?out self ?w3))))"
    using update_dataframe_calls [of env ?out self ?w3] by auto
  with run show ?thesis by simp
qed

theorem exit_code_not_inspected_witness:
  "subprocess_run stub_env [''phyml'', ''-i'', ''proj/compute_tree.phy'']
     (write_bytes stub_fs ''proj/compute_tree.phy'' ''phylip'') =
     Inr (1, write_bytes (write_bytes stub_fs ''proj/compute_tree.phy'' ''phylip'')
               ''proj/compute_tree.phy_phyml_tree.txt'' ''(A,B);'') \<and>
   ReadNewick ''proj/compute_tree.phy_phyml_tree.txt''
     \<in> set (calls (snd (snd (compute_tree stub_env (PyStr ''sequence'') (PyStr ''aa'')
          (PyStr ''-1'') (PyStr ''LG'') (PyStr ''e'') Map.empty stub_project stub_world)))) \<and>
   fst (compute_tree stub_env (PyStr ''sequence'') (PyStr ''aa'') (PyStr ''-1'') (PyStr ''LG'')
          (PyStr ''e'') Map.empty stub_project stub_world) = None"
proof -
  note go = exit_code_not_inspected [OF stub_stages(1-3),
      where sequence_col = "PyStr ''sequence''", THEN conjunct2]
  have out: "tree_outpath
      (write_bytes (write_bytes stub_fs ''proj/compute_tree.phy'' ''phylip'')
         ''proj/compute_tree.phy_phyml_tree.txt'' ''(A,B);'') (project_dir stub_project) =
      ''proj/compute_tree.phy_phyml_tree.txt''"
    using stub_stages(4) by (simp add: tree_outpath_def Let_def stub_project_def os_path_join_def)
  have ok: "fst (compute_tree stub_env (PyStr ''sequence'') (PyStr ''aa'') (PyStr ''-1'')
          (PyStr ''LG'') (PyStr ''e'') Map.empty stub_project stub_world) = None"
    using stub_call_succeeds by (simp add: compute_tree_call_defaults)
  from go out ok stub_stages(3) show ?thesis
    by (simp add: py_split_def is_space_def)
qed

subsection \<open>Errors and the frame\<close>

text \<open>
  \<^bold>\<open>C9.\<close> When \<open>compute_tree\<close> or \<open>compute_reconstruction\<close> raises, the project (directory and
  frame) is what it was before the call.
\<close>

theorem error_leaves_table:
  "(fst (compute_tree env sequence_col datatype' bootstrap model frequencies kw self w) \<noteq> None \<longrightarrow>
      fst (snd (compute_tree env sequence_col datatype' bootstrap model frequencies kw self w))
        = self) \<and>
   (fst (compute_reconstruction env id_col sequence_col altall_cutoff aaRatefile kw self w)
      \<noteq> None \<longrightarrow>
      fst (snd (compute_reconstruction env id_col sequence_col altall_cutoff aaRatefile kw self w))
        = self)"
  by (auto simp: compute_tree_def compute_reconstruction_def update_dataframe_def Let_def
           split: sum.splits prod.splits)

theorem error_leaves_table_witness:
  "fst (compute_tree_call stub_env_no_phyml Map.empty stub_project stub_world) =
     Some (FileNotFoundError ''phyml'') \<and>
   fst (snd (compute_tree_call stub_env_no_phyml Map.empty stub_project stub_world)) =
     stub_project \<and>
   fst (compute_reconstruction stub_env_no_phyml (PyStr ''uid'') (PyStr ''sequence'')
          (PyFloat 0.2) (PyStr ''lg'') Map.empty stub_project stub_world) =
     Some (External ''ReconstructionError'') \<and>
   fst (snd (compute_reconstruction stub_env_no_phyml (PyStr ''uid'') (PyStr ''sequence'')
          (PyFloat 0.2) (PyStr ''lg'') Map.empty stub_project stub_world)) =
     stub_project"
proof -
  have t: "fst (compute_tree_call stub_env_no_phyml Map.empty stub_project stub_world) =
             Some (FileNotFoundError ''phyml'')"
    by (simp add: stub_call_no_phyml)
  have r: "fst (compute_reconstruction stub_env_no_phyml (PyStr ''uid'') (PyStr ''sequence'')
                  (PyFloat 0.2) (PyStr ''lg'') Map.empty stub_project stub_world) =
             Some (External ''ReconstructionError'')"
    by (simp add: compute_reconstruction_def reconstruct_keywords_def stub_defs Let_def)
  from t r
    error_leaves_table [where env = stub_env_no_phyml and sequence_col = "PyStr ''sequence''"
      and datatype' = "PyStr ''aa''" and bootstrap = "PyStr ''-1''" and model = "PyStr ''LG''"
      and frequencies = "PyStr ''e''" and kw = Map.empty and self = stub_project
      and w = stub_world and id_col = "PyStr ''uid''" and altall_cutoff = "PyFloat 0.2"
      and aaRatefile = "PyStr ''lg''"]
  show ?thesis
    by (simp add: compute_tree_call_defaults)
qed

subsection \<open>Loading any pickled value\<close>

text \<open>
  \<^bold>\<open>C10.\<close> \<open>load_pickle\<close> returns whatever pickle makes of the file's contents, a project or
  any other value, and changes nothing.
\<close>

theorem load_pickle_any_value:
  assumes "files (fsys w) filename = Some b" and "pickle_loads env b = Inr v"
  shows "load_pickle env filename w = (Inr v, w)"
  using assms by (simp add: load_pickle_def open_rb_file)

theorem load_pickle_any_value_witness:
  "files (fsys stub_world) ''three.pkl'' = Some ''I'' \<and>
   pickle_loads stub_env ''I'' = Inr (Value (PyInt 3)) \<and>
   load_pickle stub_env ''three.pkl'' stub_world = (Inr (Value (PyInt 3)), stub_world)"
proof -
  have f: "files (fsys stub_world) ''three.pkl'' = Some ''I''"
    by (simp add: stub_defs path_defs)
  have l: "pickle_loads stub_env ''I'' = Inr (Value (PyInt 3))"
    by (simp add: stub_defs)
  from f l load_pickle_any_value [OF f l] show ?thesis
    by simp
qed

end
